theory Spec2Isabelle
  imports Main
begin

section \<open>JSON values and the Python operations applied to them\<close>

text \<open>
  Every value the chatbot handles comes out of \<^verbatim>\<open>json.loads\<close> or is built from dict,
  list and string literals. Python's \<^verbatim>\<open>None\<close> is \<open>JNull\<close>. A dict is an association
  list in insertion order; numbers are integers (no claim depends on a float).
\<close>

datatype json =
    JNull
  | JBool bool
  | JInt int
  | JStr string
  | JArr "json list"
  | JObj "(string \<times> json) list"

text \<open>The exceptions the modelled code can raise.\<close>

datatype exc =
    KeyError string
  | IndexError
  | TypeError
  | AttributeError
  | JSONDecodeError
  | UnicodeDecodeError
  | PipeError
  | SpawnError
  | PyException string
  | EOFError
  | KeyboardInterrupt

text \<open>Truth value of an object in a condition (\<^verbatim>\<open>if x:\<close>, \<^verbatim>\<open>not x\<close>).\<close>

fun truthy :: "json \<Rightarrow> bool" where
  "truthy JNull = False"
| "truthy (JBool b) = b"
| "truthy (JInt i) = (i \<noteq> 0)"
| "truthy (JStr s) = (s \<noteq> [])"
| "truthy (JArr xs) = (xs \<noteq> [])"
| "truthy (JObj kvs) = (kvs \<noteq> [])"

text \<open>\<^verbatim>\<open>x[k]\<close> with a string key: only a dict accepts it.\<close>

fun getitem :: "json \<Rightarrow> string \<Rightarrow> exc + json" where
  "getitem (JObj kvs) k = (case map_of kvs k of None \<Rightarrow> Inl (KeyError k) | Some v \<Rightarrow> Inr v)"
| "getitem _ k = Inl TypeError"

text \<open>\<^verbatim>\<open>x[0]\<close>. The keys of a dict are strings, so \<open>0\<close> is never one of them.\<close>

fun getitem0 :: "json \<Rightarrow> exc + json" where
  "getitem0 (JArr xs) = (case xs of [] \<Rightarrow> Inl IndexError | x # _ \<Rightarrow> Inr x)"
| "getitem0 (JStr s) = (case s of [] \<Rightarrow> Inl IndexError | c # _ \<Rightarrow> Inr (JStr [c]))"
| "getitem0 (JObj kvs) = Inl (KeyError ''0'')"
| "getitem0 _ = Inl TypeError"

text \<open>\<^verbatim>\<open>x.get(k, d)\<close>: a method of dicts only.\<close>

fun py_get :: "json \<Rightarrow> string \<Rightarrow> json \<Rightarrow> exc + json" where
  "py_get (JObj kvs) k d = Inr (case map_of kvs k of None \<Rightarrow> d | Some v \<Rightarrow> v)"
| "py_get _ k d = Inl AttributeError"

text \<open>\<^verbatim>\<open>for x in v\<close>: a dict yields its keys, a string its characters.\<close>

fun py_iter :: "json \<Rightarrow> exc + json list" where
  "py_iter (JArr xs) = Inr xs"
| "py_iter (JObj kvs) = Inr (map (\<lambda>kv. JStr (fst kv)) kvs)"
| "py_iter (JStr s) = Inr (map (\<lambda>c. JStr [c]) s)"
| "py_iter _ = Inl TypeError"

text \<open>Decimal text of an integer, \<^verbatim>\<open>str(n)\<close>, and the reading of such a text, \<^verbatim>\<open>int(s)\<close>.\<close>

definition digit_char :: "nat \<Rightarrow> char" where
  "digit_char d = ''0123456789'' ! (d mod 10)"

fun str_nat :: "nat \<Rightarrow> string" where
  "str_nat n = (if n < 10 then [digit_char n] else str_nat (n div 10) @ [digit_char (n mod 10)])"

declare str_nat.simps [simp del]

definition str_int :: "int \<Rightarrow> string" where
  "str_int i = (if i < 0 then CHR ''-'' # str_nat (nat (- i)) else str_nat (nat i))"

definition digit_val :: "char \<Rightarrow> nat" where
  "digit_val c = of_char c - 48"

definition nat_of_str :: "string \<Rightarrow> nat" where
  "nat_of_str s = foldl (\<lambda>a c. 10 * a + digit_val c) 0 s"

definition int_of_str :: "string \<Rightarrow> int" where
  "int_of_str s = (case s of CHR ''-'' # r \<Rightarrow> - int (nat_of_str r) | _ \<Rightarrow> int (nat_of_str s))"

text \<open>\<^verbatim>\<open>s.strip()\<close>, on the ASCII white space.\<close>

definition is_space :: "char \<Rightarrow> bool" where
  "is_space c = (of_char c \<in> {9, 10, 11, 12, 13, 28, 29, 30, 31, 32 :: nat})"

definition strip :: "string \<Rightarrow> string" where
  "strip s = rev (dropWhile is_space (rev (dropWhile is_space s)))"

section \<open>The environment of a session\<close>

text \<open>
  What one \<^verbatim>\<open>readline()\<close> on the child's standard output gives under
  \<^verbatim>\<open>asyncio.wait_for(..., timeout=10.0)\<close>: the deadline passes, or bytes arrive (none at
  end of file), which \<^verbatim>\<open>decode()\<close> accepts or rejects.
\<close>

datatype read_outcome = ReadTimeout | ReadLine string | ReadUndecodable

text \<open>
  The library functions and the outside world are parameters of the model:
  \<^verbatim>\<open>json.loads\<close> (\<open>None\<close> when it raises \<^verbatim>\<open>JSONDecodeError\<close>), \<^verbatim>\<open>json.dumps\<close> with and
  without \<^verbatim>\<open>indent=2\<close>, \<^verbatim>\<open>str()\<close> of a list or dict, whether the child process can be
  spawned, whether the \<open>k\<close>-th write to its standard input goes through, what the \<open>k\<close>-th
  read of its standard output gives, what the \<open>k\<close>-th call of the completion endpoint
  returns (\<^verbatim>\<open>chat_completion\<close> turns every failure into a dict with an \<^verbatim>\<open>error\<close> key),
  \<^verbatim>\<open>str()\<close> of an exception, and the clock reading.
\<close>

record env =
  json_loads :: "string \<Rightarrow> json option"
  json_dumps :: "json \<Rightarrow> string"
  json_dumps_indent2 :: "json \<Rightarrow> string"
  py_repr :: "json \<Rightarrow> string"
  spawn_ok :: bool
  write_ok :: "nat \<Rightarrow> bool"
  stdout_at :: "nat \<Rightarrow> read_outcome"
  gateway_at :: "nat \<Rightarrow> json"
  exc_text :: "exc \<Rightarrow> string"
  now_iso :: string

text \<open>\<^verbatim>\<open>str(v)\<close>, as an f-string formats a value.\<close>

definition py_str :: "env \<Rightarrow> json \<Rightarrow> string" where
  "py_str e v = (case v of
      JNull \<Rightarrow> ''None''
    | JBool b \<Rightarrow> (if b then ''True'' else ''False'')
    | JInt i \<Rightarrow> str_int i
    | JStr s \<Rightarrow> s
    | _ \<Rightarrow> py_repr e v)"

section \<open>MCPMessage and MCPClient\<close>

record MCPMessage =
  jsonrpc :: json
  msg_id :: json
  msg_method :: json
  params :: json
  result :: json
  error :: json

text \<open>The dict comprehension that drops the fields holding \<^verbatim>\<open>None\<close>.\<close>

definition message_dict :: "MCPMessage \<Rightarrow> (string \<times> json) list" where
  "message_dict m = filter (\<lambda>kv. snd kv \<noteq> JNull)
     [(''jsonrpc'', jsonrpc m), (''id'', msg_id m), (''method'', msg_method m),
      (''params'', params m), (''result'', result m), (''error'', error m)]"


text \<open>
  The child process: the dicts serialised and handed to its standard input (oldest
  first), the number of reads made on its standard output, and how often it was
  terminated and awaited.
\<close>

record child_process =
  sent :: "json list"
  reads :: nat
  terminate_calls :: nat
  wait_calls :: nat

record MCPClient =
  process :: "child_process option"
  message_id :: int

definition read_response :: "env \<Rightarrow> read_outcome \<Rightarrow> exc + MCPMessage option" where
  "read_response e r = (case r of
      ReadTimeout \<Rightarrow> Inr None
    | ReadUndecodable \<Rightarrow> Inl UnicodeDecodeError
    | ReadLine response_line \<Rightarrow>
        if response_line = [] then Inr None
        else let response_text = strip response_line in
          if response_text = [] then Inr None
          else (case json_loads e response_text of
              None \<Rightarrow> Inr None
            | Some response_data \<Rightarrow>
                (case response_data of
                   JObj kvs \<Rightarrow> Inr (Some \<lparr>
                     jsonrpc = (case map_of kvs ''jsonrpc'' of None \<Rightarrow> JStr ''2.0'' | Some v \<Rightarrow> v),
                     msg_id = (case map_of kvs ''id'' of None \<Rightarrow> JNull | Some v \<Rightarrow> v),
                     msg_method = (case map_of kvs ''method'' of None \<Rightarrow> JNull | Some v \<Rightarrow> v),
                     params = (case map_of kvs ''params'' of None \<Rightarrow> JNull | Some v \<Rightarrow> v),
                     result = (case map_of kvs ''result'' of None \<Rightarrow> JNull | Some v \<Rightarrow> v),
                     error = (case map_of kvs ''error'' of None \<Rightarrow> JNull | Some v \<Rightarrow> v)\<rparr>)
                 | _ \<Rightarrow> Inl AttributeError)))"

text \<open>
  \<^verbatim>\<open>send_request\<close>: the counter is bumped and the id filled in before the write; the
  write (with its drain) may raise; then exactly one line is read.
\<close>

definition assign_id :: "int \<Rightarrow> MCPMessage \<Rightarrow> MCPMessage" where
  "assign_id n message =
     (if msg_id message = JNull then message\<lparr>msg_id := JStr (str_int n)\<rparr> else message)"

definition send_request :: "env \<Rightarrow> MCPClient \<Rightarrow> MCPMessage \<Rightarrow> (exc + MCPMessage option) \<times> MCPClient" where
  "send_request e c message = (case process c of
      None \<Rightarrow> (Inl (PyException ''MCP server not started''), c)
    | Some p \<Rightarrow>
        let n = message_id c + 1;
            p1 = p\<lparr>sent := sent p @ [JObj (message_dict (assign_id n message))]\<rparr>
        in if \<not> write_ok e (length (sent p))
           then (Inl PipeError, c\<lparr>process := Some p1, message_id := n\<rparr>)
           else (read_response e (stdout_at e (reads p1)),
                 c\<lparr>process := Some (p1\<lparr>reads := reads p1 + 1\<rparr>), message_id := n\<rparr>))"

definition send_notification :: "env \<Rightarrow> MCPClient \<Rightarrow> MCPMessage \<Rightarrow> (exc + unit) \<times> MCPClient" where
  "send_notification e c message = (case process c of
      None \<Rightarrow> (Inl (PyException ''MCP server not started''), c)
    | Some p \<Rightarrow>
        let p1 = p\<lparr>sent := sent p @ [JObj (message_dict message)]\<rparr>
        in if \<not> write_ok e (length (sent p))
           then (Inl PipeError, c\<lparr>process := Some p1\<rparr>)
           else (Inr (), c\<lparr>process := Some p1\<rparr>))"

definition init_request :: "MCPClient \<Rightarrow> MCPMessage" where
  "init_request c = \<lparr>
     jsonrpc = JStr ''2.0'',
     msg_id = JStr (str_int (message_id c)),
     msg_method = JStr ''initialize'',
     params = JObj [
       (''protocolVersion'', JStr ''2024-11-05''),
       (''capabilities'', JObj [(''tools'', JObj [])]),
       (''clientInfo'', JObj [(''name'', JStr ''mcp-chatbot''), (''version'', JStr ''1.0.0'')])],
     result = JNull,
     error = JNull\<rparr>"

definition initialized_notification :: MCPMessage where
  "initialized_notification = \<lparr>
     jsonrpc = JStr ''2.0'', msg_id = JNull, msg_method = JStr ''notifications/initialized'',
     params = JObj [], result = JNull, error = JNull\<rparr>"

text \<open>
  \<^verbatim>\<open>initialize\<close>: the \<^verbatim>\<open>except Exception\<close> around the notification swallows whatever the
  write raises.
\<close>

definition initialize :: "env \<Rightarrow> MCPClient \<Rightarrow> (exc + unit) \<times> MCPClient" where
  "initialize e c = (case send_request e c (init_request c) of
      (Inl x, c1) \<Rightarrow> (Inl x, c1)
    | (Inr None, c1) \<Rightarrow> (Inl (PyException ''Failed to initialize MCP server: No response''), c1)
    | (Inr (Some response), c1) \<Rightarrow>
        if \<not> truthy (error response)
        then (Inr (), snd (send_notification e c1 initialized_notification))
        else (Inl (PyException (''Failed to initialize MCP server: '' @ py_str e (error response))), c1))"

definition list_tools_request :: MCPMessage where
  "list_tools_request = \<lparr>
     jsonrpc = JStr ''2.0'', msg_id = JNull, msg_method = JStr ''tools/list'',
     params = JObj [], result = JNull, error = JNull\<rparr>"

text \<open>\<^verbatim>\<open>len(tools)\<close>, taken for the log line, raises on a value without a length.\<close>

fun has_len :: "json \<Rightarrow> bool" where
  "has_len (JArr xs) = True"
| "has_len (JObj kvs) = True"
| "has_len (JStr s) = True"
| "has_len _ = False"

definition list_tools :: "env \<Rightarrow> MCPClient \<Rightarrow> (exc + json) \<times> MCPClient" where
  "list_tools e c = (case send_request e c list_tools_request of
      (Inl x, c1) \<Rightarrow> (Inl x, c1)
    | (Inr None, c1) \<Rightarrow> (Inr (JArr []), c1)
    | (Inr (Some response), c1) \<Rightarrow>
        if \<not> truthy (error response)
        then (if truthy (result response)
              then (case py_get (result response) ''tools'' (JArr []) of
                      Inl x \<Rightarrow> (Inl x, c1)
                    | Inr tools \<Rightarrow> if has_len tools then (Inr tools, c1) else (Inl TypeError, c1))
              else (Inr (JArr []), c1))
        else (Inr (JArr []), c1))"

definition call_tool_request :: "json \<Rightarrow> json \<Rightarrow> MCPMessage" where
  "call_tool_request tool_name arguments = \<lparr>
     jsonrpc = JStr ''2.0'', msg_id = JNull, msg_method = JStr ''tools/call'',
     params = JObj [(''name'', tool_name), (''arguments'', arguments)],
     result = JNull, error = JNull\<rparr>"

definition call_tool :: "env \<Rightarrow> MCPClient \<Rightarrow> json \<Rightarrow> json \<Rightarrow> (exc + json) \<times> MCPClient" where
  "call_tool e c tool_name arguments =
     (case send_request e c (call_tool_request tool_name arguments) of
        (Inl x, c1) \<Rightarrow> (Inl x, c1)
      | (Inr None, c1) \<Rightarrow> (Inr (JObj [(''error'', JStr ''No response'')]), c1)
      | (Inr (Some response), c1) \<Rightarrow>
          if \<not> truthy (error response) then (Inr (result response), c1)
          else (Inr (JObj [(''error'', JStr (py_str e (error response)))]), c1))"

text \<open>\<^verbatim>\<open>MCPClient.stop\<close>: terminate the child and await its exit, when there is a child.\<close>

definition MCPClient_stop :: "MCPClient \<Rightarrow> MCPClient" where
  "MCPClient_stop c = (case process c of
      None \<Rightarrow> c
    | Some p \<Rightarrow> c\<lparr>process := Some (p\<lparr>terminate_calls := terminate_calls p + 1,
                                      wait_calls := wait_calls p + 1\<rparr>)\<rparr>)"

text \<open>
  \<^verbatim>\<open>MCPClient.start\<close>: spawn the child, then initialize; the handler logs and re-raises.
\<close>

definition new_process :: child_process where
  "new_process = \<lparr>sent = [], reads = 0, terminate_calls = 0, wait_calls = 0\<rparr>"

definition MCPClient_start :: "env \<Rightarrow> MCPClient \<Rightarrow> (exc + unit) \<times> MCPClient" where
  "MCPClient_start e c =
     (if \<not> spawn_ok e then (Inl SpawnError, c)
      else initialize e (c\<lparr>process := Some new_process\<rparr>))"

section \<open>MCPChatBot\<close>

text \<open>
  The chatbot with its two clients. Of \<^verbatim>\<open>LMStudioClient\<close> the model keeps the requests
  made: the messages and the \<^verbatim>\<open>tools\<close> entry of each payload (\<open>None\<close> when the payload
  has none). \<open>previous_tools\<close> is the attribute \<^verbatim>\<open>_previous_tools\<close>, absent until the
  first answered turn of the stdio mode.
\<close>

record MCPChatBot =
  mcp_client :: MCPClient
  gateway_calls :: "(json list \<times> json list option) list"
  available_tools :: json
  conversation_history :: "json list"
  tools_used_in_conversation :: "json list"
  previous_tools :: "json list option"

definition new_chatbot :: MCPChatBot where
  "new_chatbot = \<lparr>
     mcp_client = \<lparr>process = None, message_id = 0\<rparr>,
     gateway_calls = [],
     available_tools = JArr [],
     conversation_history = [],
     tools_used_in_conversation = [],
     previous_tools = None\<rparr>"

text \<open>\<^verbatim>\<open>chat_completion\<close>: the payload carries \<^verbatim>\<open>tools\<close> only when the argument is truthy.\<close>

definition chat_completion ::
  "env \<Rightarrow> MCPChatBot \<Rightarrow> json list \<Rightarrow> json list option \<Rightarrow> json \<times> MCPChatBot" where
  "chat_completion e b messages tools =
     (gateway_at e (length (gateway_calls b)),
      b\<lparr>gateway_calls := gateway_calls b @
           [(messages, case tools of None \<Rightarrow> None | Some ts \<Rightarrow> if ts = [] then None else Some ts)]\<rparr>)"

text \<open>A list comprehension or loop body that may raise: the first exception ends it.\<close>

fun map_exc :: "('a \<Rightarrow> exc + 'b) \<Rightarrow> 'a list \<Rightarrow> exc + 'b list" where
  "map_exc f [] = Inr []"
| "map_exc f (x # xs) = (case f x of
      Inl err \<Rightarrow> Inl err
    | Inr y \<Rightarrow> (case map_exc f xs of Inl err \<Rightarrow> Inl err | Inr ys \<Rightarrow> Inr (y # ys)))"

text \<open>\<^verbatim>\<open>[tool['name'] for tool in self.available_tools]\<close>\<close>

definition tool_names :: "json \<Rightarrow> exc + json list" where
  "tool_names available = (case py_iter available of
      Inl err \<Rightarrow> Inl err
    | Inr tools \<Rightarrow> map_exc (\<lambda>tool. getitem tool ''name'') tools)"

text \<open>\<^verbatim>\<open>sep.join(xs)\<close>\<close>

fun join :: "string \<Rightarrow> string list \<Rightarrow> string" where
  "join sep [] = []"
| "join sep [x] = x"
| "join sep (x # y # ys) = x @ sep @ join sep (y # ys)"

text \<open>One line of the system message, as the loop of \<^verbatim>\<open>create_system_message\<close> builds it.\<close>

fun tool_description :: "env \<Rightarrow> json \<Rightarrow> exc + string" where
  "tool_description e (JObj tool) = (case map_of tool ''name'' of
      None \<Rightarrow> Inl (KeyError ''name'')
    | Some name \<Rightarrow>
        let desc = ''- '' @ py_str e name @ '': '' @
              py_str e (case map_of tool ''description'' of
                          None \<Rightarrow> JStr ''No description available'' | Some d \<Rightarrow> d)
        in (case map_of tool ''inputSchema'' of
              None \<Rightarrow> Inr desc
            | Some schema \<Rightarrow> (case py_get schema ''properties'' (JObj []) of
                  Inl err \<Rightarrow> Inl err
                | Inr properties \<Rightarrow>
                    if truthy properties
                    then (case properties of
                            JObj ps \<Rightarrow> Inr (desc @ '' (Parameters: '' @ join '', '' (map fst ps) @ '')'')
                          | _ \<Rightarrow> Inl AttributeError)
                    else Inr desc)))"
| "tool_description e _ = Inl TypeError"

definition system_prompt :: "string \<Rightarrow> string" where
  "system_prompt tools_text =
     ''You are an AI assistant with access to MCP (Model Context Protocol) tools. '' @ [CHR 0x0A] @
     ''You can use these tools to help answer q`uestions and perform tasks.'' @ [CHR 0x0A] @
     [CHR 0x0A] @
     ''Available tools:'' @ [CHR 0x0A] @
     tools_text @ [CHR 0x0A] @
     [CHR 0x0A] @
     ''When you need to use a tool, respond with a function call. The user will execute the tool and provide you with the results.'' @ [CHR 0x0A] @
     ''Be helpful, accurate, and use the appropriate tools when needed to provide comprehensive answers.''"

definition create_system_message :: "env \<Rightarrow> json \<Rightarrow> exc + json" where
  "create_system_message e available = (case py_iter available of
      Inl err \<Rightarrow> Inl err
    | Inr tools \<Rightarrow> (case map_exc (tool_description e) tools of
          Inl err \<Rightarrow> Inl err
        | Inr tool_descriptions \<Rightarrow>
            let tools_text = (if tool_descriptions \<noteq> [] then join [CHR 0x0A] tool_descriptions
                              else ''No tools available'')
            in Inr (JObj [(''role'', JStr ''system''), (''content'', JStr (system_prompt tools_text))])))"

text \<open>
  \<^verbatim>\<open>MCPChatBot.start\<close>. The look at the child's standard error, made when no tool is
  available, only feeds the log and is left out.
\<close>

definition MCPChatBot_start :: "env \<Rightarrow> MCPChatBot \<Rightarrow> (exc + unit) \<times> MCPChatBot" where
  "MCPChatBot_start e b = (case MCPClient_start e (mcp_client b) of
      (Inl err, c1) \<Rightarrow> (Inl err, b\<lparr>mcp_client := c1\<rparr>)
    | (Inr u, c1) \<Rightarrow> (case list_tools e c1 of
          (Inl err, c2) \<Rightarrow> (Inl err, b\<lparr>mcp_client := c2\<rparr>)
        | (Inr tools, c2) \<Rightarrow>
            let b2 = b\<lparr>mcp_client := c2, available_tools := tools\<rparr>
            in (case tool_names tools of
                  Inl err \<Rightarrow> (Inl err, b2)
                | Inr names \<Rightarrow> (case create_system_message e tools of
                      Inl err \<Rightarrow> (Inl err, b2)
                    | Inr system_message \<Rightarrow>
                        (Inr (), b2\<lparr>conversation_history :=
                                      conversation_history b2 @ [system_message]\<rparr>)))))"

subsection \<open>The tool bridge\<close>

text \<open>The body of the loop of \<^verbatim>\<open>convert_tools_for_openai\<close>, for one tool.\<close>

fun convert_tool :: "json \<Rightarrow> exc + json" where
  "convert_tool (JObj tool) = (case map_of tool ''name'' of
      None \<Rightarrow> Inl (KeyError ''name'')
    | Some name \<Rightarrow>
        let function = [(''name'', name),
                        (''description'', case map_of tool ''description'' of
                                            None \<Rightarrow> JStr [] | Some d \<Rightarrow> d)];
            function1 = (case map_of tool ''inputSchema'' of
                           None \<Rightarrow> function
                         | Some schema \<Rightarrow> function @ [(''parameters'', schema)])
        in Inr (JObj [(''type'', JStr ''function''), (''function'', JObj function1)]))"
| "convert_tool _ = Inl TypeError"

definition convert_tools_for_openai :: "json \<Rightarrow> exc + json list" where
  "convert_tools_for_openai available = (case py_iter available of
      Inl err \<Rightarrow> Inl err
    | Inr tools \<Rightarrow> map_exc convert_tool tools)"

subsection \<open>One turn\<close>

text \<open>\<^verbatim>\<open>response["choices"][0]["message"]\<close>\<close>

definition first_message :: "json \<Rightarrow> exc + json" where
  "first_message response = (case getitem response ''choices'' of
      Inl err \<Rightarrow> Inl err
    | Inr choices \<Rightarrow> (case getitem0 choices of
          Inl err \<Rightarrow> Inl err
        | Inr choice \<Rightarrow> getitem choice ''message''))"

text \<open>
  The two reads at the head of the loop over the tool calls: the name, then
  \<^verbatim>\<open>json.loads\<close> of the argument payload, which wants a string.
\<close>

definition parse_tool_call :: "env \<Rightarrow> json \<Rightarrow> exc + (json \<times> json)" where
  "parse_tool_call e tool_call = (case getitem tool_call ''function'' of
      Inl err \<Rightarrow> Inl err
    | Inr f \<Rightarrow> (case getitem f ''name'' of
          Inl err \<Rightarrow> Inl err
        | Inr function_name \<Rightarrow> (case getitem f ''arguments'' of
              Inl err \<Rightarrow> Inl err
            | Inr payload \<Rightarrow> (case payload of
                  JStr s \<Rightarrow> (case json_loads e s of
                      None \<Rightarrow> Inl JSONDecodeError
                    | Some arguments \<Rightarrow> Inr (function_name, arguments))
                | _ \<Rightarrow> Inl TypeError))))"

definition tool_result_text :: "env \<Rightarrow> json \<Rightarrow> json \<Rightarrow> string" where
  "tool_result_text e function_name res =
     ''Tool '' @ py_str e function_name @ '' result: '' @ json_dumps_indent2 e res"

text \<open>
  The loop over the tool calls, with \<^verbatim>\<open>tools_used_this_turn\<close> and \<^verbatim>\<open>tool_results\<close> as
  accumulators. Nothing in it catches an exception.
\<close>

fun run_tool_calls ::
  "env \<Rightarrow> MCPClient \<Rightarrow> json list \<Rightarrow> json list \<Rightarrow> string list \<Rightarrow>
   (exc + json list \<times> string list) \<times> MCPClient" where
  "run_tool_calls e c [] used results = (Inr (used, results), c)"
| "run_tool_calls e c (tool_call # rest) used results = (case parse_tool_call e tool_call of
      Inl err \<Rightarrow> (Inl err, c)
    | Inr (function_name, arguments) \<Rightarrow> (case call_tool e c function_name arguments of
          (Inl err, c1) \<Rightarrow> (Inl err, c1)
        | (Inr res, c1) \<Rightarrow>
            run_tool_calls e c1 rest (used @ [function_name])
              (results @ [tool_result_text e function_name res])))"

definition tool_results_turn :: "string list \<Rightarrow> json" where
  "tool_results_turn results =
     JObj [(''role'', JStr ''user''),
           (''content'', JStr (''Tool results:'' @ [CHR 0x0A] @ join [CHR 0x0A] results))]"

text \<open>
  The end of the tool branch of \<^verbatim>\<open>process_message\<close>: one more call of the endpoint,
  without tools, whose message is the answer of the turn.
\<close>

definition final_response_round ::
  "env \<Rightarrow> MCPChatBot \<Rightarrow> json list \<Rightarrow> (exc + json) \<times> MCPChatBot" where
  "final_response_round e b1 used =
     (let (final_response, b2) = chat_completion e b1 (conversation_history b1) None
      in (case final_response of
            JObj r \<Rightarrow> (case map_of r ''error'' of
                Some err \<Rightarrow> (Inr (JStr (''Error in final response: '' @ py_str e err)), b2)
              | None \<Rightarrow> (case first_message final_response of
                    Inl err \<Rightarrow> (Inl err, b2)
                  | Inr final_message \<Rightarrow>
                      let b3 = b2\<lparr>conversation_history :=
                                    conversation_history b2 @ [final_message],
                                  tools_used_in_conversation :=
                                    tools_used_in_conversation b2 @ used\<rparr>
                      in (getitem final_message ''content'', b3)))
          | _ \<Rightarrow> (Inl TypeError, b2)))"

text \<open>The branch of \<^verbatim>\<open>process_message\<close> taken when the assistant asks for tools.\<close>

definition tool_round ::
  "env \<Rightarrow> MCPChatBot \<Rightarrow> json \<Rightarrow> json \<Rightarrow> (exc + json) \<times> MCPChatBot" where
  "tool_round e b assistant_message tool_calls = (case py_iter tool_calls of
      Inl err \<Rightarrow> (Inl err, b)
    | Inr tcs \<Rightarrow> (case run_tool_calls e (mcp_client b) tcs [] [] of
          (Inl err, c1) \<Rightarrow> (Inl err, b\<lparr>mcp_client := c1\<rparr>)
        | (Inr (used, results), c1) \<Rightarrow>
            final_response_round e
              (b\<lparr>mcp_client := c1,
                 conversation_history := conversation_history b @
                   [assistant_message, tool_results_turn results]\<rparr>)
              used))"

text \<open>
  \<^verbatim>\<open>process_message\<close>. A reply of the endpoint that is not a dict raises \<^verbatim>\<open>TypeError\<close>
  whatever it is: at \<^verbatim>\<open>"error" in response\<close> when it has no membership test, else at
  the subscript with a string that follows.
\<close>

definition process_message :: "env \<Rightarrow> MCPChatBot \<Rightarrow> string \<Rightarrow> (exc + json) \<times> MCPChatBot" where
  "process_message e b user_input =
     (let b1 = b\<lparr>conversation_history := conversation_history b @
                   [JObj [(''role'', JStr ''user''), (''content'', JStr user_input)]]\<rparr>
      in case convert_tools_for_openai (available_tools b1) of
           Inl err \<Rightarrow> (Inl err, b1)
         | Inr openai_tools \<Rightarrow>
             let (response, b2) = chat_completion e b1 (conversation_history b1)
                                    (if openai_tools \<noteq> [] then Some openai_tools else None)
             in (case response of
                   JObj r \<Rightarrow> (case map_of r ''error'' of
                       Some err \<Rightarrow> (Inr (JStr (''Error: '' @ py_str e err)), b2)
                     | None \<Rightarrow> (case first_message response of
                           Inl err \<Rightarrow> (Inl err, b2)
                         | Inr assistant_message \<Rightarrow>
                             (case py_get assistant_message ''tool_calls'' JNull of
                                Inl err \<Rightarrow> (Inl err, b2)
                              | Inr tool_calls \<Rightarrow>
                                  if truthy tool_calls
                                  then tool_round e b2 assistant_message tool_calls
                                  else (getitem assistant_message ''content'',
                                        b2\<lparr>conversation_history :=
                                             conversation_history b2 @ [assistant_message]\<rparr>))))
                 | _ \<Rightarrow> (Inl TypeError, b2)))"

definition MCPChatBot_stop :: "MCPChatBot \<Rightarrow> MCPChatBot" where
  "MCPChatBot_stop b = b\<lparr>mcp_client := MCPClient_stop (mcp_client b)\<rparr>"

section \<open>The two run modes and \<^verbatim>\<open>main\<close>\<close>

text \<open>
  \<^verbatim>\<open>list(set(xs))\<close>: building the set raises on a list or dict (unhashable); equal
  elements are merged, and Python holds \<^verbatim>\<open>True == 1\<close> and \<^verbatim>\<open>False == 0\<close>. The order in
  which a set is listed is not fixed by the language; the model lists first occurrences.
\<close>

fun hashable :: "json \<Rightarrow> bool" where
  "hashable (JArr xs) = False"
| "hashable (JObj kvs) = False"
| "hashable _ = True"

fun py_num :: "json \<Rightarrow> int option" where
  "py_num (JBool b) = Some (if b then 1 else 0)"
| "py_num (JInt i) = Some i"
| "py_num _ = None"

definition py_eq :: "json \<Rightarrow> json \<Rightarrow> bool" where
  "py_eq a b = (case (py_num a, py_num b) of (Some x, Some y) \<Rightarrow> x = y | _ \<Rightarrow> a = b)"

definition py_member :: "json \<Rightarrow> json list \<Rightarrow> bool" where
  "py_member x ys = list_ex (py_eq x) ys"

fun set_to_list :: "json list \<Rightarrow> json list" where
  "set_to_list [] = []"
| "set_to_list (x # xs) = x # filter (\<lambda>y. \<not> py_eq x y) (set_to_list xs)"

definition py_list_set :: "json list \<Rightarrow> exc + json list" where
  "py_list_set xs = (if list_all hashable xs then Inr (set_to_list xs) else Inl TypeError)"

text \<open>\<^verbatim>\<open>type(e).__name__\<close>; a failed write is a \<^verbatim>\<open>BrokenPipeError\<close>.\<close>

fun exc_name :: "exc \<Rightarrow> string" where
  "exc_name (KeyError k) = ''KeyError''"
| "exc_name IndexError = ''IndexError''"
| "exc_name TypeError = ''TypeError''"
| "exc_name AttributeError = ''AttributeError''"
| "exc_name JSONDecodeError = ''JSONDecodeError''"
| "exc_name UnicodeDecodeError = ''UnicodeDecodeError''"
| "exc_name PipeError = ''BrokenPipeError''"
| "exc_name SpawnError = ''FileNotFoundError''"
| "exc_name (PyException m) = ''Exception''"
| "exc_name EOFError = ''EOFError''"
| "exc_name KeyboardInterrupt = ''KeyboardInterrupt''"

text \<open>\<^verbatim>\<open>format_stdio_response\<close>; \<^verbatim>\<open>xs or []\<close> is \<open>xs\<close> for a list.\<close>

definition format_stdio_response :: "env \<Rightarrow> json \<Rightarrow> json list \<Rightarrow> json list \<Rightarrow> json" where
  "format_stdio_response e response tools_used available =
     JObj [(''response'', response),
           (''timestamp'', JStr (now_iso e)),
           (''metadata'', JObj [(''tools_available'', JArr available),
                                (''tools_used'', JArr tools_used)])]"

text \<open>
  The handler of the inner \<^verbatim>\<open>try\<close> of \<^verbatim>\<open>run_stdio\<close>: it reads the tool names again, so
  it can raise itself.
\<close>

definition stdio_error_response :: "env \<Rightarrow> MCPChatBot \<Rightarrow> exc \<Rightarrow> exc + json" where
  "stdio_error_response e b err = (case tool_names (available_tools b) of
      Inl err2 \<Rightarrow> Inl err2
    | Inr names \<Rightarrow> Inr (JObj [(''error'', JStr (exc_text e err)),
                               (''timestamp'', JStr (now_iso e)),
                               (''metadata'', JObj [(''tools_available'', JArr names),
                                                    (''error_type'', JStr (exc_name err))])]))"

text \<open>
  The inner \<^verbatim>\<open>try\<close> of \<^verbatim>\<open>run_stdio\<close> for one line of input: the object printed, or the
  exception that leaves the handler.
\<close>

definition stdio_turn :: "env \<Rightarrow> MCPChatBot \<Rightarrow> string \<Rightarrow> (exc + json) \<times> MCPChatBot" where
  "stdio_turn e b user_input = (case process_message e b user_input of
      (Inl err, b1) \<Rightarrow> (stdio_error_response e b1 err, b1)
    | (Inr response, b1) \<Rightarrow> (case py_list_set (tools_used_in_conversation b1) of
          Inl err \<Rightarrow> (stdio_error_response e b1 err, b1)
        | Inr current_tools \<Rightarrow>
            let tools_in_last_turn =
                  filter (\<lambda>tool. \<not> py_member tool
                            (case previous_tools b1 of None \<Rightarrow> [] | Some prev \<Rightarrow> prev))
                         current_tools
            in (case tool_names (available_tools b1) of
                  Inl err \<Rightarrow> (stdio_error_response e b1 err, b1)
                | Inr names \<Rightarrow>
                    (Inr (format_stdio_response e response tools_in_last_turn names),
                     b1\<lparr>previous_tools := Some current_tools\<rparr>))))"

text \<open>
  What the user does at a prompt: a line of text, or an interrupt. The end of the list
  is the end of the input. An interrupt is modelled where the loop waits for input.
\<close>

datatype input_event = InputLine string | CtrlC

text \<open>
  The loop of \<^verbatim>\<open>run_stdio\<close>: \<^verbatim>\<open>readline()\<close> gives the empty string at the end of the
  input only. The result is the exception that left the loop, if any, what was
  printed, and the chatbot.
\<close>

fun stdio_loop ::
  "env \<Rightarrow> MCPChatBot \<Rightarrow> input_event list \<Rightarrow> json list \<Rightarrow> exc option \<times> json list \<times> MCPChatBot" where
  "stdio_loop e b [] printed = (None, printed, b)"
| "stdio_loop e b (CtrlC # rest) printed = (Some KeyboardInterrupt, printed, b)"
| "stdio_loop e b (InputLine line # rest) printed =
     (if line = [] then (None, printed, b)
      else if strip line = [] then stdio_loop e b rest printed
      else (case stdio_turn e b (strip line) of
              (Inl err, b1) \<Rightarrow> (Some err, printed, b1)
            | (Inr response, b1) \<Rightarrow> stdio_loop e b1 rest (printed @ [response])))"

text \<open>
  \<^verbatim>\<open>run_stdio\<close>: \<^verbatim>\<open>except Exception\<close> swallows everything but an interrupt, and the
  \<^verbatim>\<open>finally\<close> clause stops the chatbot in every case.
\<close>

definition run_stdio ::
  "env \<Rightarrow> MCPChatBot \<Rightarrow> input_event list \<Rightarrow> exc option \<times> json list \<times> MCPChatBot" where
  "run_stdio e b events = (case stdio_loop e b events [] of
      (raised, printed, b1) \<Rightarrow>
        (if raised = Some KeyboardInterrupt then Some KeyboardInterrupt else None,
         printed, MCPChatBot_stop b1))"

text \<open>\<^verbatim>\<open>s.lower()\<close>, on ASCII letters.\<close>

definition lower_char :: "char \<Rightarrow> char" where
  "lower_char c = (if 65 \<le> (of_char c :: nat) \<and> (of_char c :: nat) \<le> 90
                   then char_of (of_char c + 32 :: nat) else c)"

text \<open>
  The loop of \<^verbatim>\<open>run_interactive\<close>. At the end of the input \<^verbatim>\<open>input()\<close> raises
  \<^verbatim>\<open>EOFError\<close>, the handler inside the loop prints it, and the next \<^verbatim>\<open>input()\<close> raises
  again: the loop does not return, which is the value \<open>None\<close>.
\<close>

fun interactive_loop ::
  "env \<Rightarrow> MCPChatBot \<Rightarrow> input_event list \<Rightarrow> json list \<Rightarrow> (json list \<times> MCPChatBot) option" where
  "interactive_loop e b [] printed = None"
| "interactive_loop e b (CtrlC # rest) printed = Some (printed, b)"
| "interactive_loop e b (InputLine line # rest) printed =
     (if map lower_char (strip line) \<in> set [''quit'', ''exit'', ''bye''] then Some (printed, b)
      else if strip line = [] then interactive_loop e b rest printed
      else (case process_message e b (strip line) of
              (Inl err, b1) \<Rightarrow> interactive_loop e b1 rest printed
            | (Inr response, b1) \<Rightarrow> interactive_loop e b1 rest (printed @ [response])))"

text \<open>
  \<^verbatim>\<open>run_interactive\<close>. The banner joins the tool names with \<^verbatim>\<open>', '.join\<close>, which wants
  strings, before the \<^verbatim>\<open>try\<close> is entered.
\<close>

fun is_str :: "json \<Rightarrow> bool" where
  "is_str (JStr s) = True"
| "is_str _ = False"

definition banner_tools :: "json \<Rightarrow> exc + unit" where
  "banner_tools available =
     (if truthy available
      then (case tool_names available of
              Inl err \<Rightarrow> Inl err
            | Inr names \<Rightarrow> if list_all is_str names then Inr () else Inl TypeError)
      else Inr ())"

definition run_interactive ::
  "env \<Rightarrow> MCPChatBot \<Rightarrow> input_event list \<Rightarrow> ((exc + json list) \<times> MCPChatBot) option" where
  "run_interactive e b events = (case banner_tools (available_tools b) of
      Inl err \<Rightarrow> Some (Inl err, b)
    | Inr u \<Rightarrow> (case interactive_loop e b events [] of
          None \<Rightarrow> None
        | Some (printed, b1) \<Rightarrow> Some (Inr printed, MCPChatBot_stop b1)))"

datatype run_mode = Interactive | Stdio

text \<open>
  \<^verbatim>\<open>main\<close>: the exit status, what was printed and the chatbot at the end; \<open>None\<close> when
  it does not return. An exception out of \<^verbatim>\<open>start\<close> or out of a run mode is logged and
  the program leaves with status 1; an interrupt is logged and \<^verbatim>\<open>main\<close> returns.
\<close>

definition main :: "env \<Rightarrow> run_mode \<Rightarrow> input_event list \<Rightarrow> (nat \<times> json list \<times> MCPChatBot) option" where
  "main e mode events = (case MCPChatBot_start e new_chatbot of
      (Inl err, b1) \<Rightarrow> Some (1, [], b1)
    | (Inr u, b1) \<Rightarrow> (case mode of
          Interactive \<Rightarrow> (case run_interactive e b1 events of
              None \<Rightarrow> None
            | Some (Inl err, b2) \<Rightarrow> Some (1, [], b2)
            | Some (Inr printed, b2) \<Rightarrow> Some (0, printed, b2))
        | Stdio \<Rightarrow> (case run_stdio e b1 events of
              (raised, printed, b2) \<Rightarrow> Some (0, printed, b2))))"

section \<open>Notions used to state the properties\<close>



text \<open>The ids of the Requests written so far, oldest first, and an id read as an integer.\<close>

definition id_of_dict :: "json \<Rightarrow> json list" where
  "id_of_dict d = (case d of
      JObj kvs \<Rightarrow> (case map_of kvs ''id'' of None \<Rightarrow> [] | Some v \<Rightarrow> [v])
    | _ \<Rightarrow> [])"

definition request_ids :: "child_process \<Rightarrow> json list" where
  "request_ids p = concat (map id_of_dict (sent p))"

definition id_value :: "json \<Rightarrow> int option" where
  "id_value v = (case v of JStr s \<Rightarrow> Some (int_of_str s) | _ \<Rightarrow> None)"

text \<open>
  The client's use by the rest of the program after \<^verbatim>\<open>start\<close>: a sequence of
  \<^verbatim>\<open>list_tools\<close> and \<^verbatim>\<open>call_tool\<close> calls, whatever each of them returns or raises.
\<close>

datatype client_op = ListTools | CallTool json json

fun run_op :: "env \<Rightarrow> MCPClient \<Rightarrow> client_op \<Rightarrow> MCPClient" where
  "run_op e c ListTools = snd (list_tools e c)"
| "run_op e c (CallTool tool_name arguments) = snd (call_tool e c tool_name arguments)"

definition run_ops :: "env \<Rightarrow> MCPClient \<Rightarrow> client_op list \<Rightarrow> MCPClient" where
  "run_ops e c ops = foldl (run_op e) c ops"

text \<open>
  The invariant behind the ids: the Requests written so far carry the texts of a
  strictly increasing list of integers, none above the counter.
\<close>

definition ids_ok :: "MCPClient \<Rightarrow> int list \<Rightarrow> bool" where
  "ids_ok c ns = (\<exists>p. process c = Some p \<and> request_ids p = map (\<lambda>n. JStr (str_int n)) ns \<and>
                      sorted_wrt (<) ns \<and> (\<forall>n \<in> set ns. n \<le> message_id c))"



text \<open>The turn that \<^verbatim>\<open>process_message\<close> appends for the user's text.\<close>

definition user_turn :: "string \<Rightarrow> json" where
  "user_turn user_input = JObj [(''role'', JStr ''user''), (''content'', JStr user_input)]"

text \<open>
  The assistant message of a reply of the endpoint together with the tool calls it asks
  for, when the reply is one that sends \<^verbatim>\<open>process_message\<close> into its loop over tool
  calls.
\<close>

definition tool_calls_of :: "json \<Rightarrow> (json \<times> json list) option" where
  "tool_calls_of response = (case response of
      JObj r \<Rightarrow> (case map_of r ''error'' of
          Some err \<Rightarrow> None
        | None \<Rightarrow> (case first_message response of
              Inl err \<Rightarrow> None
            | Inr assistant_message \<Rightarrow> (case py_get assistant_message ''tool_calls'' JNull of
                  Inl err \<Rightarrow> None
                | Inr tool_calls \<Rightarrow>
                    if truthy tool_calls
                    then (case py_iter tool_calls of
                            Inl err \<Rightarrow> None
                          | Inr tcs \<Rightarrow> Some (assistant_message, tcs))
                    else None)))
    | _ \<Rightarrow> None)"








section \<open>A concrete session\<close>

text \<open>
  An environment to run the model on. \<open>demo_loads\<close> agrees with \<^verbatim>\<open>json.loads\<close> on the
  texts it lists and on every text that is not JSON; \<open>render\<close> is \<^verbatim>\<open>json.dumps\<close> for
  values whose strings need no escaping, and stands in for the other two renderings as
  well, since no property depends on the layout of a rendering. The child's answers,
  the endpoint's replies and the fate of each write are given per session; a child that
  has no more answers stays silent, an endpoint without more replies is unreachable.
\<close>

fun render :: "json \<Rightarrow> string" where
  "render JNull = ''null''"
| "render (JBool b) = (if b then ''true'' else ''false'')"
| "render (JInt i) = str_int i"
| "render (JStr s) = [CHR 0x22] @ s @ [CHR 0x22]"
| "render (JArr xs) = ''['' @ join '', '' (map render xs) @ '']''"
| "render (JObj kvs) =
     ''{'' @ join '', '' (map (\<lambda>kv. [CHR 0x22] @ fst kv @ [CHR 0x22] @ '': '' @ render (snd kv)) kvs) @ ''}''"

declare render.simps [simp del]

definition demo_loads :: "string \<Rightarrow> json option" where
  \<open>demo_loads s =
     (if s = ''{"result": {}}'' then Some (JObj [(''result'', JObj [])])
      else if s = ''{"error": {"code": 1}}'' then Some (JObj [(''error'', JObj [(''code'', JInt 1)])])
      else if s = ''{"result": {"tools": [{"name": "echo"}]}}'' then
        Some (JObj [(''result'', JObj [(''tools'', JArr [JObj [(''name'', JStr ''echo'')]])])])
      else if s = ''{"text": "hi"}'' then Some (JObj [(''text'', JStr ''hi'')])
      else None)\<close>

definition demo_env :: "read_outcome list \<Rightarrow> json list \<Rightarrow> (nat \<Rightarrow> bool) \<Rightarrow> env" where
  "demo_env answers replies writes = \<lparr>
     json_loads = demo_loads,
     json_dumps = render,
     json_dumps_indent2 = render,
     py_repr = render,
     spawn_ok = True,
     write_ok = writes,
     stdout_at = (\<lambda>k. if k < length answers then answers ! k else ReadTimeout),
     gateway_at = (\<lambda>k. if k < length replies then replies ! k
                         else JObj [(''error'', JStr ''Connection failed'')]),
     exc_text = exc_name,
     now_iso = ''2024-01-01T00:00:00''\<rparr>"

text \<open>The client as \<^verbatim>\<open>MCPClient.start\<close> hands it to \<^verbatim>\<open>initialize\<close>.\<close>

definition spawned_client :: MCPClient where
  "spawned_client = \<lparr>process = Some new_process, message_id = 0\<rparr>"

text \<open>
  A session against a server with one tool: it answers \<^verbatim>\<open>initialize\<close> and
  \<^verbatim>\<open>tools/list\<close>, then goes on as \<open>answers\<close> says. \<open>started_chatbot\<close> is the chatbot
  that \<^verbatim>\<open>start\<close> leaves behind in such a session.
\<close>

definition echo_session :: "read_outcome list \<Rightarrow> json list \<Rightarrow> env" where
  \<open>echo_session answers replies =
     demo_env (ReadLine ''{"result": {}}'' #
               ReadLine ''{"result": {"tools": [{"name": "echo"}]}}'' # answers)
              replies (\<lambda>k. True)\<close>

definition started_process :: child_process where
  "started_process = \<lparr>
     sent = [JObj (message_dict (init_request spawned_client)),
             JObj (message_dict initialized_notification),
             JObj (message_dict (assign_id 2 list_tools_request))],
     reads = 2, terminate_calls = 0, wait_calls = 0\<rparr>"

definition started_chatbot :: MCPChatBot where
  "started_chatbot = \<lparr>
     mcp_client = \<lparr>process = Some started_process, message_id = 2\<rparr>,
     gateway_calls = [],
     available_tools = JArr [JObj [(''name'', JStr ''echo'')]],
     conversation_history =
       [JObj [(''role'', JStr ''system''),
              (''content'', JStr (system_prompt ''- echo: No description available''))]],
     tools_used_in_conversation = [],
     previous_tools = None\<rparr>"

text \<open>
  Replies of the endpoint: a request for one call of the tool with the given payload,
  and a plain answer.
\<close>

definition echo_call :: "string \<Rightarrow> json" where
  "echo_call payload =
     JObj [(''function'', JObj [(''name'', JStr ''echo''), (''arguments'', JStr payload)])]"

definition echo_message :: "string \<Rightarrow> json" where
  "echo_message payload =
     JObj [(''role'', JStr ''assistant''), (''content'', JNull),
           (''tool_calls'', JArr [echo_call payload])]"

definition asks_echo :: "string \<Rightarrow> json" where
  "asks_echo payload = JObj [(''choices'', JArr [JObj [(''message'', echo_message payload)]])]"



section \<open>Decimal text of integers\<close>

lemma digit_cases: "d < 10 \<Longrightarrow> d \<in> {0, 1, 2, 3, 4, 5, 6, 7, 8, 9 :: nat}"
  by auto

lemma digit_val_digit_char: "d < 10 \<Longrightarrow> digit_val (digit_char d) = d"
  using digit_cases [of d] by (auto simp: digit_val_def digit_char_def)

lemma digit_char_not_minus: "digit_char d \<noteq> CHR ''-''"
proof -
  have "d mod 10 \<in> {0, 1, 2, 3, 4, 5, 6, 7, 8, 9 :: nat}" by (rule digit_cases) simp
  then show ?thesis by (auto simp: digit_char_def)
qed

lemma str_nat_small: "n < 10 \<Longrightarrow> str_nat n = [digit_char n]"
  by (subst str_nat.simps) simp

lemma str_nat_big: "\<not> n < 10 \<Longrightarrow> str_nat n = str_nat (n div 10) @ [digit_char (n mod 10)]"
  by (subst str_nat.simps) simp

lemma nat_of_str_snoc: "nat_of_str (s @ [c]) = 10 * nat_of_str s + digit_val c"
  by (simp add: nat_of_str_def)

lemma nat_of_str_str_nat: "nat_of_str (str_nat n) = n"
proof (induction n rule: str_nat.induct)
  case (1 n)
  show ?case
  proof (cases "n < 10")
    case True
    then show ?thesis by (simp add: str_nat_small nat_of_str_def digit_val_digit_char)
  next
    case False
    have "nat_of_str (str_nat n) =
          10 * nat_of_str (str_nat (n div 10)) + digit_val (digit_char (n mod 10))"
      using False by (simp add: str_nat_big nat_of_str_snoc)
    also have "\<dots> = 10 * (n div 10) + n mod 10"
      using False "1.IH" by (simp add: digit_val_digit_char)
    finally show ?thesis by simp
  qed
qed

lemma str_nat_hd: "\<exists>c cs. str_nat n = c # cs \<and> c \<noteq> CHR ''-''"
proof (induction n rule: str_nat.induct)
  case (1 n)
  show ?case
  proof (cases "n < 10")
    case True
    then show ?thesis by (simp add: str_nat_small digit_char_not_minus)
  next
    case False
    with "1.IH" obtain c cs where "str_nat (n div 10) = c # cs" "c \<noteq> CHR ''-''" by blast
    with False show ?thesis by (simp add: str_nat_big)
  qed
qed

text \<open>Reading the text of an integer gives the integer back.\<close>

lemma int_of_str_str_int: "int_of_str (str_int i) = i"
proof (cases "i < 0")
  case True
  then show ?thesis by (simp add: int_of_str_def str_int_def nat_of_str_str_nat)
next
  case False
  obtain c cs where h: "str_nat (nat i) = c # cs" "c \<noteq> CHR ''-''" using str_nat_hd by blast
  have "int_of_str (str_nat (nat i)) = int (nat_of_str (str_nat (nat i)))"
    unfolding int_of_str_def using h by (simp split: list.splits char.splits bool.splits)
  with False show ?thesis by (simp add: str_int_def nat_of_str_str_nat)
qed

section \<open>What \<^verbatim>\<open>send_request\<close> writes and reads\<close>






lemma md_id: "map_of (message_dict m) ''id'' = (if msg_id m = JNull then None else Some (msg_id m))"
  by (simp add: message_dict_def)


lemma send_request_sent:
  "process c = Some p \<Longrightarrow>
   \<exists>p'. process (snd (send_request e c m)) = Some p' \<and>
        sent p' = sent p @ [JObj (message_dict (assign_id (message_id c + 1) m))] \<and>
        terminate_calls p' = terminate_calls p \<and> wait_calls p' = wait_calls p"
  by (simp add: send_request_def Let_def)

lemma send_request_message_id:
  "process c = Some p \<Longrightarrow> message_id (snd (send_request e c m)) = message_id c + 1"
  by (simp add: send_request_def Let_def)




lemma send_notification_message_id:
  "message_id (snd (send_notification e c m)) = message_id c"
  by (simp add: send_notification_def Let_def split: option.splits)

lemma initialize_no_response:
  assumes "fst (send_request e c (init_request c)) = Inr None"
  shows "fst (initialize e c) = Inl (PyException ''Failed to initialize MCP server: No response'')"
  using assms by (cases "send_request e c (init_request c)") (simp add: initialize_def)





lemma request_ids_snoc:
  "sent p' = sent p @ [JObj d] \<Longrightarrow>
   request_ids p' = request_ids p @ (case map_of d ''id'' of None \<Rightarrow> [] | Some v \<Rightarrow> [v])"
  by (simp add: request_ids_def id_of_dict_def)

lemma send_request_ids_ok:
  assumes "ids_ok c ns" and "msg_id m = JNull"
  shows "ids_ok (snd (send_request e c m)) (ns @ [message_id c + 1])"
proof -
  from assms(1) obtain p where p: "process c = Some p"
    "request_ids p = map (\<lambda>n. JStr (str_int n)) ns" "sorted_wrt (<) ns"
    "\<forall>n \<in> set ns. n \<le> message_id c" by (auto simp: ids_ok_def)
  let ?m = "assign_id (message_id c + 1) m"
  from send_request_sent [OF p(1), of e m] obtain p' where
    p': "process (snd (send_request e c m)) = Some p'" "sent p' = sent p @ [JObj (message_dict ?m)]"
    by blast
  have "msg_id ?m = JStr (str_int (message_id c + 1))" using assms(2) by (simp add: assign_id_def)
  then have "map_of (message_dict ?m) ''id'' = Some (JStr (str_int (message_id c + 1)))"
    by (simp add: md_id)
  then have "request_ids p' = map (\<lambda>n. JStr (str_int n)) (ns @ [message_id c + 1])"
    using request_ids_snoc [OF p'(2)] p(2) by simp
  moreover have "sorted_wrt (<) (ns @ [message_id c + 1])"
    using p(3,4) by (auto simp: sorted_wrt_append)
  moreover have "\<forall>n \<in> set (ns @ [message_id c + 1]). n \<le> message_id (snd (send_request e c m))"
    using p(4) send_request_message_id [OF p(1), of e m] by auto
  ultimately show ?thesis using p'(1) unfolding ids_ok_def by blast
qed

lemma list_tools_snd: "snd (list_tools e c) = snd (send_request e c list_tools_request)"
  by (simp add: list_tools_def split: prod.splits sum.splits option.splits)

lemma call_tool_snd: "snd (call_tool e c n a) = snd (send_request e c (call_tool_request n a))"
  by (simp add: call_tool_def split: prod.splits sum.splits option.splits)

lemma run_op_ids_ok:
  "ids_ok c ns \<Longrightarrow> ids_ok (run_op e c op) (ns @ [message_id c + 1])"
  by (cases op)
     (simp_all add: list_tools_snd call_tool_snd send_request_ids_ok list_tools_request_def
        call_tool_request_def)

lemma run_ops_ids_ok:
  "ids_ok c ns \<Longrightarrow>
   \<exists>ms. ids_ok (run_ops e c ops) (ns @ ms) \<and> length ms = length ops"
proof (induction ops arbitrary: c ns)
  case Nil
  then show ?case by (simp add: run_ops_def)
next
  case (Cons op ops)
  from Cons.IH [OF run_op_ids_ok [OF Cons.prems, of e op]]
  obtain ms where "ids_ok (run_ops e (run_op e c op) ops) ((ns @ [message_id c + 1]) @ ms)"
    "length ms = length ops" by blast
  then have "ids_ok (run_ops e c (op # ops)) (ns @ (message_id c + 1) # ms) \<and>
             length ((message_id c + 1) # ms) = length (op # ops)"
    by (simp add: run_ops_def)
  then show ?case by blast
qed

lemma send_notification_ids_ok:
  assumes "ids_ok c ns" and "msg_id m = JNull"
  shows "ids_ok (snd (send_notification e c m)) ns"
proof -
  from assms(1) obtain p where p: "process c = Some p"
    "request_ids p = map (\<lambda>n. JStr (str_int n)) ns" "sorted_wrt (<) ns"
    "\<forall>n \<in> set ns. n \<le> message_id c" by (auto simp: ids_ok_def)
  have "process (snd (send_notification e c m)) = Some (p\<lparr>sent := sent p @ [JObj (message_dict m)]\<rparr>)"
    using p(1) by (simp add: send_notification_def Let_def)
  moreover have "request_ids (p\<lparr>sent := sent p @ [JObj (message_dict m)]\<rparr>) = request_ids p"
    using assms(2) by (simp add: request_ids_def id_of_dict_def md_id)
  moreover have "message_id (snd (send_notification e c m)) = message_id c"
    by (simp add: send_notification_def Let_def split: option.splits)
  ultimately show ?thesis using p unfolding ids_ok_def by simp
qed

lemma initialize_ids_ok:
  assumes "process c = Some p" and "sent p = []" and "message_id c = 0"
  shows "ids_ok (snd (initialize e c)) [0]"
proof -
  let ?m = "assign_id (message_id c + 1) (init_request c)"
  from send_request_sent [OF assms(1), of e "init_request c"] obtain p' where
    p': "process (snd (send_request e c (init_request c))) = Some p'"
        "sent p' = sent p @ [JObj (message_dict ?m)]" by blast
  have "msg_id ?m = JStr (str_int 0)" using assms(3) by (simp add: assign_id_def init_request_def)
  then have "map_of (message_dict ?m) ''id'' = Some (JStr (str_int 0))" by (simp add: md_id)
  then have "request_ids p' = [JStr (str_int 0)]"
    using request_ids_snoc [OF p'(2)] assms(2) by (simp add: request_ids_def)
  then have ok: "ids_ok (snd (send_request e c (init_request c))) [0]"
    using p'(1) send_request_message_id [OF assms(1), of e "init_request c"] assms(3)
    by (simp add: ids_ok_def)
  obtain r c1 where rc: "send_request e c (init_request c) = (r, c1)" by (cases "send_request e c (init_request c)")
  have "snd (initialize e c) = c1 \<or>
        snd (initialize e c) = snd (send_notification e c1 initialized_notification)"
    using rc by (simp add: initialize_def split: sum.splits option.splits)
  then show ?thesis
    using ok rc send_notification_ids_ok [of c1 "[0]" initialized_notification e]
    by (auto simp: initialized_notification_def)
qed

section \<open>Loops that may raise\<close>



section \<open>The tool branch of a turn\<close>

text \<open>What \<^verbatim>\<open>process_message\<close> does once the first reply asks for tool calls.\<close>

lemma process_message_tool_branch:
  assumes "convert_tools_for_openai (available_tools b) = Inr ots"
    and "tool_calls_of (gateway_at e (length (gateway_calls b))) = Some (msg, tcs)"
  shows "process_message e b u =
    (case run_tool_calls e (mcp_client b) tcs [] [] of
       (Inl err, c1) \<Rightarrow>
         (Inl err, b\<lparr>conversation_history := conversation_history b @ [user_turn u],
                     gateway_calls := gateway_calls b @
                       [(conversation_history b @ [user_turn u],
                         if ots = [] then None else Some ots)],
                     mcp_client := c1\<rparr>)
     | (Inr (used, results), c1) \<Rightarrow>
         final_response_round e
           (b\<lparr>gateway_calls := gateway_calls b @
                [(conversation_history b @ [user_turn u],
                  if ots = [] then None else Some ots)],
              mcp_client := c1,
              conversation_history :=
                conversation_history b @ [user_turn u, msg, tool_results_turn results]\<rparr>)
           used)"
  using assms
  by (auto simp: process_message_def tool_round_def tool_calls_of_def chat_completion_def
        user_turn_def Let_def
      split: json.splits option.splits sum.splits prod.splits if_splits)



lemma send_request_lifecycle:
  "map_option terminate_calls (process (snd (send_request e c m))) =
     map_option terminate_calls (process c) \<and>
   map_option wait_calls (process (snd (send_request e c m))) =
     map_option wait_calls (process c)"
  by (simp add: send_request_def Let_def split: option.splits)

lemma run_tool_calls_lifecycle:
  "map_option terminate_calls (process (snd (run_tool_calls e c tcs used results))) =
     map_option terminate_calls (process c) \<and>
   map_option wait_calls (process (snd (run_tool_calls e c tcs used results))) =
     map_option wait_calls (process c)"
proof (induction tcs arbitrary: c used results)
  case Nil
  then show ?case by simp
next
  case (Cons tc tcs)
  show ?case
  proof (cases "parse_tool_call e tc")
    case (Inl err)
    then show ?thesis by simp
  next
    case (Inr na)
    obtain n a where na: "na = (n, a)" by (cases na)
    obtain r c1 where ct: "call_tool e c n a = (r, c1)" by (cases "call_tool e c n a")
    have c1: "c1 = snd (send_request e c (call_tool_request n a))"
      using ct call_tool_snd [of e c n a] by simp
    show ?thesis
    proof (cases r)
      case (Inl err)
      then show ?thesis using Inr na ct c1 send_request_lifecycle [of e c] by simp
    next
      case (Inr res)
      then show ?thesis
        using \<open>parse_tool_call e tc = Inr na\<close> na ct c1 send_request_lifecycle [of e c]
          Cons.IH [of c1] by simp
    qed
  qed
qed



lemma run_tool_calls_unparsable:
  assumes "i < length tcs" and "parse_tool_call e (tcs ! i) = Inl err"
  shows "\<exists>x c'. run_tool_calls e c tcs used results = (Inl x, c')"
  using assms
proof (induction tcs arbitrary: i c used results)
  case Nil
  then show ?case by simp
next
  case (Cons tc tcs)
  show ?case
  proof (cases i)
    case 0
    then show ?thesis using Cons.prems by simp
  next
    case (Suc k)
    then have k: "k < length tcs" "parse_tool_call e (tcs ! k) = Inl err"
      using Cons.prems by simp_all
    show ?thesis
    proof (cases "parse_tool_call e tc")
      case (Inl x)
      then show ?thesis by simp
    next
      case (Inr na)
      obtain n a where na: "na = (n, a)" by (cases na)
      obtain r c1 where ct: "call_tool e c n a = (r, c1)" by (cases "call_tool e c n a")
      show ?thesis
      proof (cases r)
        case (Inl x)
        then show ?thesis using Inr na ct by simp
      next
        case (Inr res)
        from Cons.IH [OF k, of c1 "used @ [n]" "results @ [tool_result_text e n res]"]
        show ?thesis using \<open>parse_tool_call e tc = Inr na\<close> na ct Inr by simp
      qed
    qed
  qed
qed

lemma run_tool_calls_append:
  "run_tool_calls e c (xs @ ys) used results =
     (case run_tool_calls e c xs used results of
        (Inl x, c1) \<Rightarrow> (Inl x, c1)
      | (Inr (used1, results1), c1) \<Rightarrow> run_tool_calls e c1 ys used1 results1)"
proof (induction xs arbitrary: c used results)
  case Nil
  then show ?case by simp
next
  case (Cons tc xs)
  then show ?case by (simp split: sum.splits prod.splits)
qed

lemma parse_unparsable:
  assumes "getitem tc ''function'' = Inr f" and "getitem f ''name'' = Inr n"
    and "getitem f ''arguments'' = Inr (JStr s)" and "json_loads e s = None"
  shows "parse_tool_call e tc = Inl JSONDecodeError"
  using assms by (simp add: parse_tool_call_def)


section \<open>Tool names as a Python set\<close>









section \<open>The concrete session\<close>

lemma strip_init: \<open>strip ''{"result": {}}'' = ''{"result": {}}''\<close>
  by (simp add: strip_def is_space_def)

lemma strip_tools: \<open>strip ''{"result": {"tools": [{"name": "echo"}]}}'' = ''{"result": {"tools": [{"name": "echo"}]}}''\<close>
  by (simp add: strip_def is_space_def)

lemma echo_session_start:
  "MCPChatBot_start (echo_session answers replies) new_chatbot = (Inr (), started_chatbot)"
  by (simp add: MCPChatBot_start_def MCPClient_start_def echo_session_def demo_env_def
      new_chatbot_def initialize_def send_request_def send_notification_def read_response_def
      new_process_def strip_init strip_tools demo_loads_def list_tools_def Let_def
      tool_names_def create_system_message_def started_chatbot_def started_process_def spawned_client_def
      py_str_def init_request_def list_tools_request_def assign_id_def)

lemma started_tools:
  "convert_tools_for_openai (available_tools started_chatbot) =
     Inr [JObj [(''type'', JStr ''function''),
                (''function'', JObj [(''name'', JStr ''echo''), (''description'', JStr [])])]]"
  by (simp add: started_chatbot_def convert_tools_for_openai_def)


lemma started_counts:
  "gateway_calls started_chatbot = []" "length (sent started_process) = 3"
  "reads started_process = 2"
  by (simp_all add: started_chatbot_def started_process_def)

lemma echo_session_fields:
  "json_loads (echo_session answers replies) = demo_loads"
  "write_ok (echo_session answers replies) k"
  "stdout_at (echo_session answers replies) (Suc (Suc k)) =
     (if k < length answers then answers ! k else ReadTimeout)"
  "gateway_at (echo_session answers replies) k =
     (if k < length replies then replies ! k else JObj [(''error'', JStr ''Connection failed'')])"
  by (simp_all add: echo_session_def demo_env_def)


lemma asks_echo_calls:
  "tool_calls_of (asks_echo payload) = Some (echo_message payload, [echo_call payload])"
  by (simp add: tool_calls_of_def asks_echo_def echo_message_def first_message_def)




lemma echo_call_parts:
  "getitem (echo_call payload) ''function'' =
     Inr (JObj [(''name'', JStr ''echo''), (''arguments'', JStr payload)])"
  "getitem (JObj [(''name'', JStr ''echo''), (''arguments'', JStr payload)]) ''name'' =
     Inr (JStr ''echo'')"
  "getitem (JObj [(''name'', JStr ''echo''), (''arguments'', JStr payload)]) ''arguments'' =
     Inr (JStr payload)"
  by (simp_all add: echo_call_def)


lemma demo_loads_bad: "demo_loads ''not json'' = None"
  by (simp add: demo_loads_def)





section \<open>Who terminates the child\<close>

lemma initialize_failure_state:
  "fst (initialize e c) = Inl x \<Longrightarrow>
   snd (initialize e c) = snd (send_request e c (init_request c))"
  by (cases "send_request e c (init_request c)")
     (auto simp: initialize_def split: sum.splits option.splits if_splits)

lemma send_notification_lifecycle:
  "map_option terminate_calls (process (snd (send_notification e c m))) =
     map_option terminate_calls (process c) \<and>
   map_option wait_calls (process (snd (send_notification e c m))) =
     map_option wait_calls (process c)"
  by (simp add: send_notification_def Let_def split: option.splits)

lemma initialize_lifecycle:
  "map_option terminate_calls (process (snd (initialize e c))) =
     map_option terminate_calls (process c) \<and>
   map_option wait_calls (process (snd (initialize e c))) = map_option wait_calls (process c)"
proof -
  obtain r c1 where rc: "send_request e c (init_request c) = (r, c1)"
    by (cases "send_request e c (init_request c)")
  have c1: "map_option terminate_calls (process c1) = map_option terminate_calls (process c) \<and>
            map_option wait_calls (process c1) = map_option wait_calls (process c)"
    using send_request_lifecycle [of e c "init_request c"] rc by simp
  have "snd (initialize e c) = c1 \<or>
        snd (initialize e c) = snd (send_notification e c1 initialized_notification)"
    using rc by (simp add: initialize_def split: sum.splits option.splits)
  then show ?thesis
    using c1 send_notification_lifecycle [of e c1 initialized_notification] by auto
qed

lemma final_response_round_client:
  "mcp_client (snd (final_response_round e b used)) = mcp_client b"
  by (simp add: final_response_round_def chat_completion_def Let_def
      split: json.splits option.splits sum.splits)

lemma tool_round_lifecycle:
  "map_option terminate_calls (process (mcp_client (snd (tool_round e b msg tc)))) =
     map_option terminate_calls (process (mcp_client b)) \<and>
   map_option wait_calls (process (mcp_client (snd (tool_round e b msg tc)))) =
     map_option wait_calls (process (mcp_client b))"
proof (cases "py_iter tc")
  case (Inl err)
  then show ?thesis by (simp add: tool_round_def)
next
  case (Inr tcs)
  obtain r c1 where rc: "run_tool_calls e (mcp_client b) tcs [] [] = (r, c1)"
    by (cases "run_tool_calls e (mcp_client b) tcs [] []")
  have c1: "map_option terminate_calls (process c1) =
              map_option terminate_calls (process (mcp_client b)) \<and>
            map_option wait_calls (process c1) = map_option wait_calls (process (mcp_client b))"
    using run_tool_calls_lifecycle [of e "mcp_client b" tcs "[]" "[]"] rc by simp
  show ?thesis
  proof (cases r)
    case (Inl err)
    then show ?thesis using Inr rc c1 by (simp add: tool_round_def)
  next
    case (Inr ur)
    then show ?thesis
      using \<open>py_iter tc = Inr tcs\<close> rc c1
      by (cases ur) (simp add: tool_round_def final_response_round_client)
  qed
qed

lemma process_message_lifecycle:
  "map_option terminate_calls (process (mcp_client (snd (process_message e b u)))) =
     map_option terminate_calls (process (mcp_client b)) \<and>
   map_option wait_calls (process (mcp_client (snd (process_message e b u)))) =
     map_option wait_calls (process (mcp_client b))"
  by (simp add: process_message_def chat_completion_def Let_def tool_round_lifecycle
      split: json.splits option.splits sum.splits)

lemma stdio_turn_lifecycle:
  "map_option terminate_calls (process (mcp_client (snd (stdio_turn e b u)))) =
     map_option terminate_calls (process (mcp_client b)) \<and>
   map_option wait_calls (process (mcp_client (snd (stdio_turn e b u)))) =
     map_option wait_calls (process (mcp_client b))"
  using process_message_lifecycle [of e b u]
  by (cases "process_message e b u")
     (auto simp: stdio_turn_def Let_def split: sum.splits)

lemma stdio_loop_lifecycle:
  "stdio_loop e b events printed = (raised, printed', b') \<Longrightarrow>
   map_option terminate_calls (process (mcp_client b')) =
     map_option terminate_calls (process (mcp_client b)) \<and>
   map_option wait_calls (process (mcp_client b')) =
     map_option wait_calls (process (mcp_client b))"
proof (induction e b events printed rule: stdio_loop.induct)
  case (1 e b printed)
  then show ?case by simp
next
  case (2 e b rest printed)
  then show ?case by simp
next
  case (3 e b line rest printed)
  show ?case
  proof (cases "line = []")
    case True
    then show ?thesis using "3.prems" by simp
  next
    case nonempty: False
    show ?thesis
    proof (cases "strip line = []")
      case True
      then show ?thesis using nonempty "3.prems" "3.IH"(1) by simp
    next
      case False
      obtain r b1 where t: "stdio_turn e b (strip line) = (r, b1)"
        by (cases "stdio_turn e b (strip line)")
      have b1: "map_option terminate_calls (process (mcp_client b1)) =
                  map_option terminate_calls (process (mcp_client b)) \<and>
                map_option wait_calls (process (mcp_client b1)) =
                  map_option wait_calls (process (mcp_client b))"
        using stdio_turn_lifecycle [of e b "strip line"] t by simp
      show ?thesis
      proof (cases r)
        case (Inl err)
        then show ?thesis using nonempty False t b1 "3.prems" by simp
      next
        case (Inr response)
        then show ?thesis
          using nonempty False t b1 "3.prems" "3.IH"(2) [OF nonempty False t [symmetric] Inr]
          by simp
      qed
    qed
  qed
qed

lemma start_spawned:
  "spawn_ok e \<Longrightarrow> MCPClient_start e (mcp_client new_chatbot) = initialize e spawned_client"
  by (simp add: MCPClient_start_def new_chatbot_def spawned_client_def)

lemma list_tools_lifecycle:
  "map_option terminate_calls (process (snd (list_tools e c))) =
     map_option terminate_calls (process c) \<and>
   map_option wait_calls (process (snd (list_tools e c))) = map_option wait_calls (process c)"
  by (simp add: list_tools_snd send_request_lifecycle)

lemma chatbot_start_client:
  "mcp_client (snd (MCPChatBot_start e b)) = snd (MCPClient_start e (mcp_client b)) \<or>
   mcp_client (snd (MCPChatBot_start e b)) =
     snd (list_tools e (snd (MCPClient_start e (mcp_client b))))"
  by (cases "MCPClient_start e (mcp_client b)";
      cases "list_tools e (snd (MCPClient_start e (mcp_client b)))")
     (auto simp: MCPChatBot_start_def Let_def split: sum.splits)

lemma chatbot_start_lifecycle:
  assumes "spawn_ok e"
  shows "\<exists>p. process (mcp_client (snd (MCPChatBot_start e new_chatbot))) = Some p \<and>
             terminate_calls p = 0 \<and> wait_calls p = 0"
proof -
  let ?c1 = "snd (MCPClient_start e (mcp_client new_chatbot))"
  have c1: "map_option terminate_calls (process ?c1) = Some 0 \<and>
            map_option wait_calls (process ?c1) = Some 0"
    using initialize_lifecycle [of e spawned_client] assms
    by (simp add: start_spawned spawned_client_def new_process_def)
  then have c2: "map_option terminate_calls (process (snd (list_tools e ?c1))) = Some 0 \<and>
                 map_option wait_calls (process (snd (list_tools e ?c1))) = Some 0"
    using list_tools_lifecycle [of e ?c1] by simp
  from chatbot_start_client [of e new_chatbot] c1 c2
  have "map_option terminate_calls (process (mcp_client (snd (MCPChatBot_start e new_chatbot)))) = Some 0 \<and>
        map_option wait_calls (process (mcp_client (snd (MCPChatBot_start e new_chatbot)))) = Some 0"
    by auto
  then show ?thesis by auto
qed

lemma chatbot_start_failure:
  "fst (MCPClient_start e (mcp_client b)) = Inl x \<Longrightarrow> fst (MCPChatBot_start e b) = Inl x"
  by (cases "MCPClient_start e (mcp_client b)") (simp add: MCPChatBot_start_def)

lemma main_start_failure:
  "fst (MCPChatBot_start e new_chatbot) = Inl x \<Longrightarrow>
   main e mode events = Some (1, [], snd (MCPChatBot_start e new_chatbot))"
  by (cases "MCPChatBot_start e new_chatbot") (simp add: main_def)

lemma start_success_spawned:
  "fst (MCPChatBot_start e new_chatbot) = Inr u \<Longrightarrow> spawn_ok e"
  by (cases "spawn_ok e") (simp_all add: MCPChatBot_start_def MCPClient_start_def)

lemma stop_counts:
  "process (mcp_client b) = Some p \<Longrightarrow>
   process (mcp_client (MCPChatBot_stop b)) =
     Some (p\<lparr>terminate_calls := terminate_calls p + 1, wait_calls := wait_calls p + 1\<rparr>)"
  by (simp add: MCPChatBot_stop_def MCPClient_stop_def)

text \<open>The sibling path: once \<^verbatim>\<open>start\<close> has returned, the stdio mode stops the child once.\<close>

lemma stdio_session_stops_once:
  assumes "fst (MCPChatBot_start e new_chatbot) = Inr u"
  shows "\<exists>printed b p. main e Stdio events = Some (0, printed, b) \<and>
           process (mcp_client b) = Some p \<and> terminate_calls p = 1 \<and> wait_calls p = 1"
proof -
  obtain b1 where st: "MCPChatBot_start e new_chatbot = (Inr u, b1)"
    using assms by (cases "MCPChatBot_start e new_chatbot") simp
  from chatbot_start_lifecycle [OF start_success_spawned [OF assms]] st
  obtain p1 where p1: "process (mcp_client b1) = Some p1" "terminate_calls p1 = 0"
    "wait_calls p1 = 0" by auto
  obtain raised printed b2 where lp: "stdio_loop e b1 events [] = (raised, printed, b2)"
    by (cases "stdio_loop e b1 events []") auto
  from stdio_loop_lifecycle [OF lp] p1
  obtain p2 where p2: "process (mcp_client b2) = Some p2" "terminate_calls p2 = 0"
    "wait_calls p2 = 0" by auto
  have "main e Stdio events = Some (0, printed, MCPChatBot_stop b2)"
    using st lp by (simp add: main_def run_stdio_def)
  then show ?thesis using stop_counts [OF p2(1)] p2 by simp
qed

lemma interactive_loop_lifecycle:
  "interactive_loop e b events printed = Some (printed', b') \<Longrightarrow>
   map_option terminate_calls (process (mcp_client b')) =
     map_option terminate_calls (process (mcp_client b)) \<and>
   map_option wait_calls (process (mcp_client b')) =
     map_option wait_calls (process (mcp_client b))"
proof (induction e b events printed rule: interactive_loop.induct)
  case (1 e b printed)
  then show ?case by simp
next
  case (2 e b rest printed)
  then show ?case by simp
next
  case (3 e b line rest printed)
  show ?case
  proof (cases "map lower_char (strip line) \<in> set [''quit'', ''exit'', ''bye'']")
    case True
    then show ?thesis using "3.prems" by simp
  next
    case go: False
    show ?thesis
    proof (cases "strip line = []")
      case True
      then show ?thesis using go "3.prems" "3.IH"(1) by simp
    next
      case False
      obtain r b1 where t: "process_message e b (strip line) = (r, b1)"
        by (cases "process_message e b (strip line)")
      have b1: "map_option terminate_calls (process (mcp_client b1)) =
                  map_option terminate_calls (process (mcp_client b)) \<and>
                map_option wait_calls (process (mcp_client b1)) =
                  map_option wait_calls (process (mcp_client b))"
        using process_message_lifecycle [of e b "strip line"] t by simp
      show ?thesis
      proof (cases r)
        case (Inl err)
        then show ?thesis
          using go False t b1 "3.prems" "3.IH"(2) [OF go False t [symmetric] Inl] by simp
      next
        case (Inr response)
        then show ?thesis
          using go False t b1 "3.prems" "3.IH"(3) [OF go False t [symmetric] Inr] by simp
      qed
    qed
  qed
qed

text \<open>And so does the interactive mode, whenever its loop is left.\<close>

lemma interactive_session_stops_once:
  assumes "fst (MCPChatBot_start e new_chatbot) = Inr u"
    and "main e Interactive events = Some (0, printed, b)"
  shows "\<exists>p. process (mcp_client b) = Some p \<and> terminate_calls p = 1 \<and> wait_calls p = 1"
proof -
  obtain b1 where st: "MCPChatBot_start e new_chatbot = (Inr u, b1)"
    using assms(1) by (cases "MCPChatBot_start e new_chatbot") simp
  from chatbot_start_lifecycle [OF start_success_spawned [OF assms(1)]] st
  obtain p1 where p1: "process (mcp_client b1) = Some p1" "terminate_calls p1 = 0"
    "wait_calls p1 = 0" by auto
  from assms(2) st obtain b2 where
    lp: "interactive_loop e b1 events [] = Some (printed, b2)" and b: "b = MCPChatBot_stop b2"
    by (auto simp: main_def run_interactive_def split: sum.splits option.splits prod.splits)
  from interactive_loop_lifecycle [OF lp] p1
  obtain p2 where p2: "process (mcp_client b2) = Some p2" "terminate_calls p2 = 0"
    "wait_calls p2 = 0" by auto
  show ?thesis using stop_counts [OF p2(1)] p2 b by simp
qed

section \<open>The tool bridge and a descriptor without \<^verbatim>\<open>inputSchema\<close>\<close>




section \<open>A tool call whose arguments are not JSON\<close>

text \<open>
  Claim C2, as the code has it. \<^verbatim>\<open>json.loads\<close> of the argument payload stands
  unguarded in the loop over the tool calls. When the first reply asks for a tool call
  whose payload is not JSON, \<^verbatim>\<open>process_message\<close> raises: the conversation has gained
  the user's turn only, the endpoint is not called again, no tool use is recorded and
  the child is not terminated. When the calls before it went through, the exception
  is \<^verbatim>\<open>JSONDecodeError\<close> and the client is left as those calls left it, so neither
  the unparsable call nor a later one reaches the server.
\<close>

theorem unparsable_arguments_abort_turn:
  assumes conv: "convert_tools_for_openai (available_tools b) = Inr ots"
    and ask: "tool_calls_of (gateway_at e (length (gateway_calls b))) = Some (msg, tcs)"
    and i: "i < length tcs" "getitem (tcs ! i) ''function'' = Inr f"
      "getitem f ''name'' = Inr n" "getitem f ''arguments'' = Inr (JStr s)"
    and bad: "json_loads e s = None"
  shows "\<exists>x b'. process_message e b u = (Inl x, b') \<and>
           conversation_history b' = conversation_history b @ [user_turn u] \<and>
           length (gateway_calls b') = Suc (length (gateway_calls b)) \<and>
           tools_used_in_conversation b' = tools_used_in_conversation b \<and>
           map_option terminate_calls (process (mcp_client b')) =
             map_option terminate_calls (process (mcp_client b)) \<and>
           (\<forall>used results c1.
              run_tool_calls e (mcp_client b) (take i tcs) [] [] = (Inr (used, results), c1)
              \<longrightarrow> x = JSONDecodeError \<and> mcp_client b' = c1)"
proof -
  have p: "parse_tool_call e (tcs ! i) = Inl JSONDecodeError"
    using i bad by (simp add: parse_unparsable)
  from run_tool_calls_unparsable [OF i(1) p, of "mcp_client b" "[]" "[]"]
  obtain x c' where loop: "run_tool_calls e (mcp_client b) tcs [] [] = (Inl x, c')" by blast
  have pm: "process_message e b u =
    (Inl x, b\<lparr>conversation_history := conversation_history b @ [user_turn u],
               gateway_calls := gateway_calls b @
                 [(conversation_history b @ [user_turn u], if ots = [] then None else Some ots)],
               mcp_client := c'\<rparr>)"
    using process_message_tool_branch [OF conv ask, of u] loop by simp
  have life: "map_option terminate_calls (process c') =
              map_option terminate_calls (process (mcp_client b))"
    using run_tool_calls_lifecycle [of e "mcp_client b" tcs "[]" "[]"] loop by simp
  have first: "x = JSONDecodeError \<and> c' = c1"
    if h: "run_tool_calls e (mcp_client b) (take i tcs) [] [] = (Inr (used, results), c1)"
    for used results c1
  proof -
    have "tcs = take i tcs @ (tcs ! i) # drop (Suc i) tcs"
      using i(1) by (simp add: id_take_nth_drop)
    then have "run_tool_calls e (mcp_client b) tcs [] [] =
               run_tool_calls e c1 ((tcs ! i) # drop (Suc i) tcs) used results"
      using run_tool_calls_append [of e "mcp_client b" "take i tcs" "(tcs ! i) # drop (Suc i) tcs" "[]" "[]"] h
      by simp
    also have "\<dots> = (Inl JSONDecodeError, c1)" using p by simp
    finally show ?thesis using loop by simp
  qed
  show ?thesis using pm life first by auto
qed

theorem unparsable_arguments_abort_turn_witness:
  "json_loads (echo_session [] [asks_echo ''not json'']) ''not json'' = None \<and>
   (\<exists>x b'. process_message (echo_session [] [asks_echo ''not json'']) started_chatbot ''hello'' =
             (Inl x, b') \<and>
      conversation_history b' = conversation_history started_chatbot @ [user_turn ''hello''] \<and>
      length (gateway_calls b') = Suc (length (gateway_calls started_chatbot)) \<and>
      tools_used_in_conversation b' = tools_used_in_conversation started_chatbot \<and>
      map_option terminate_calls (process (mcp_client b')) =
        map_option terminate_calls (process (mcp_client started_chatbot)) \<and>
      x = JSONDecodeError \<and> mcp_client b' = mcp_client started_chatbot)"
proof -
  let ?e = "echo_session [] [asks_echo ''not json'']"
  let ?tcs = "[echo_call ''not json'']"
  have ask: "tool_calls_of (gateway_at ?e (length (gateway_calls started_chatbot))) =
              Some (echo_message ''not json'', ?tcs)"
    by (simp add: started_counts echo_session_fields asks_echo_calls)
  have bad: "json_loads ?e ''not json'' = None"
    by (simp add: echo_session_fields demo_loads_bad)
  have i: "0 < length ?tcs"
    "getitem (?tcs ! 0) ''function'' = Inr (JObj [(''name'', JStr ''echo''), (''arguments'', JStr ''not json'')])"
    by (simp_all add: echo_call_parts)
  have before: "run_tool_calls ?e (mcp_client started_chatbot) (take 0 ?tcs) [] [] =
                  (Inr ([], []), mcp_client started_chatbot)"
    by simp
  from unparsable_arguments_abort_turn [OF started_tools ask i echo_call_parts(2,3) bad, of "''hello''"]
    before bad
  show ?thesis by auto
qed

text \<open>
  A reply that asks for \<^verbatim>\<open>echo\<close> with the payload \<^verbatim>\<open>not json\<close>: the turn ends in the
  exception, where the claim as stated has it completed.
\<close>

theorem unparsable_arguments_raise:
  "fst (process_message (echo_session [] [asks_echo ''not json'']) started_chatbot ''hello'') =
     Inl JSONDecodeError"
proof -
  let ?e = "echo_session [] [asks_echo ''not json'']"
  have ask: "tool_calls_of (gateway_at ?e (length (gateway_calls started_chatbot))) =
              Some (echo_message ''not json'', [echo_call ''not json''])"
    by (simp add: started_counts echo_session_fields asks_echo_calls)
  have "parse_tool_call ?e (echo_call ''not json'') = Inl JSONDecodeError"
    by (simp add: parse_unparsable echo_call_parts echo_session_fields demo_loads_bad)
  then have "run_tool_calls ?e (mcp_client started_chatbot) [echo_call ''not json''] [] [] =
               (Inl JSONDecodeError, mcp_client started_chatbot)"
    by simp
  then show ?thesis
    using process_message_tool_branch [OF started_tools ask, of "''hello''"] by simp
qed

section \<open>A start that fails after the child was spawned\<close>

text \<open>
  Claim C3 asks that \<^verbatim>\<open>MCPClient.stop\<close> runs exactly once on every exit path of a
  session, a failed start included. The run modes do so (\<open>stdio_session_stops_once\<close>,
  \<open>interactive_session_stops_once\<close>), but \<^verbatim>\<open>main\<close> does not: when the child has been
  spawned and \<^verbatim>\<open>initialize\<close> raises, \<^verbatim>\<open>main\<close> leaves with status 1 and the child has
  been neither terminated nor awaited.
\<close>

theorem start_failure_skips_stop:
  assumes "spawn_ok e" and "fst (initialize e spawned_client) = Inl x"
  shows "\<exists>b p. main e mode events = Some (1, [], b) \<and> process (mcp_client b) = Some p \<and>
               terminate_calls p = 0 \<and> wait_calls p = 0"
proof -
  have "fst (MCPChatBot_start e new_chatbot) = Inl x"
    using assms by (simp add: chatbot_start_failure start_spawned)
  then have "main e mode events = Some (1, [], snd (MCPChatBot_start e new_chatbot))"
    by (rule main_start_failure)
  with chatbot_start_lifecycle [OF assms(1)] show ?thesis by auto
qed

theorem start_failure_skips_stop_witness:
  "spawn_ok (demo_env [] [] (\<lambda>k. True)) \<and>
   fst (initialize (demo_env [] [] (\<lambda>k. True)) spawned_client) =
     Inl (PyException ''Failed to initialize MCP server: No response'') \<and>
   (\<exists>b p. main (demo_env [] [] (\<lambda>k. True)) Stdio [InputLine ''hello''] = Some (1, [], b) \<and>
          process (mcp_client b) = Some p \<and> terminate_calls p = 0 \<and> wait_calls p = 0)"
proof -
  have s: "spawn_ok (demo_env [] [] (\<lambda>k. True))" by (simp add: demo_env_def)
  have f: "fst (initialize (demo_env [] [] (\<lambda>k. True)) spawned_client) =
     Inl (PyException ''Failed to initialize MCP server: No response'')"
    by (simp add: initialize_no_response send_request_def spawned_client_def new_process_def
        demo_env_def read_response_def Let_def)
  from start_failure_skips_stop [OF s f, of Stdio "[InputLine ''hello'']"] s f
  show ?thesis by blast
qed

section \<open>The outcomes of \<^verbatim>\<open>initialize\<close>\<close>



section \<open>Request ids\<close>

text \<open>
  Claim C5. In a session that spawned its child, \<^verbatim>\<open>start\<close> sends the \<^verbatim>\<open>initialize\<close>
  Request with the id \<^verbatim>\<open>"0"\<close>, and whatever sequence of \<^verbatim>\<open>list_tools\<close> and \<^verbatim>\<open>call_tool\<close>
  calls follows, each of them sends one Request; the ids of all Requests written are
  the decimal texts of a strictly increasing sequence of integers that starts at 0, so
  each id, read as an integer, is above every earlier one and above the one of
  \<^verbatim>\<open>initialize\<close>.
\<close>

theorem request_ids_increase:
  assumes "spawn_ok e"
  shows "\<exists>p ns. process (run_ops e (snd (MCPClient_start e (mcp_client new_chatbot))) ops) = Some p \<and>
           request_ids p = map (\<lambda>n. JStr (str_int n)) ns \<and>
           map id_value (request_ids p) = map Some ns \<and>
           sorted_wrt (<) ns \<and> length ns = Suc (length ops) \<and> hd ns = 0"
proof -
  let ?c = "snd (MCPClient_start e (mcp_client new_chatbot))"
  have "ids_ok ?c [0]"
    using assms by (simp add: MCPClient_start_def new_chatbot_def new_process_def initialize_ids_ok)
  from run_ops_ids_ok [OF this, of e ops] obtain ms where
    ms: "ids_ok (run_ops e ?c ops) ([0] @ ms)" "length ms = length ops" by blast
  then obtain p where p: "process (run_ops e ?c ops) = Some p"
    "request_ids p = map (\<lambda>n. JStr (str_int n)) (0 # ms)" "sorted_wrt (<) (0 # ms)"
    by (auto simp: ids_ok_def)
  have "map id_value (request_ids p) = map Some (0 # ms)"
    unfolding p(2) by (simp add: id_value_def int_of_str_str_int)
  with p ms(2) show ?thesis
    by (intro exI [of _ p] exI [of _ "0 # ms"]) simp
qed

theorem request_ids_increase_witness:
  "spawn_ok (demo_env [] [] (\<lambda>k. True)) \<and>
   (\<exists>p ns. process (run_ops (demo_env [] [] (\<lambda>k. True))
                (snd (MCPClient_start (demo_env [] [] (\<lambda>k. True)) (mcp_client new_chatbot)))
                [ListTools, CallTool (JStr ''echo'') (JObj [])]) = Some p \<and>
      request_ids p = map (\<lambda>n. JStr (str_int n)) ns \<and>
      map id_value (request_ids p) = map Some ns \<and>
      sorted_wrt (<) ns \<and> length ns = 3 \<and> hd ns = 0)"
proof -
  have s: "spawn_ok (demo_env [] [] (\<lambda>k. True))" by (simp add: demo_env_def)
  from request_ids_increase [OF s, of "[ListTools, CallTool (JStr ''echo'') (JObj [])]"] s
  show ?thesis by (simp add: numeral_3_eq_3)
qed

section \<open>A read that runs into the deadline\<close>



section \<open>A tool call that fails\<close>



section \<open>One follow-up call\<close>



section \<open>The wire line of a Request\<close>



section \<open>The tools reported for a turn of the stdio mode\<close>



end
